theory Spec2Isabelle
  imports Main
begin

section \<open>The resilient fetch helper of \<open>src/app/utils/fetchWithRetry.ts\<close>\<close>

text \<open>
  The helper wraps the platform's \<open>fetch\<close> in a bounded retry loop with exponential
  backoff, a User-Agent chosen by attempt index and a session cookie kept in
  \<open>AsyncStorage\<close>. The embedding keeps the source's structure: the headers built at
  the top of the loop body, the \<open>try\<close> block, the \<open>catch\<close> block, the loop and the
  statement after the loop are one definition each. The copy of the helper that
  \<open>src/app/recipe-details.tsx\<close> keeps for itself (lines 26--96) is embedded the same
  way, in a section of its own.

  What the platform supplies is modelled as follows.
  \<^item> Numbers: \<open>retries\<close>, \<open>initialDelay\<close>, \<open>timeout\<close> and the HTTP status are
    \<open>int\<close>, the loop counter \<open>i\<close> (which starts at 0 and grows by 1) is \<open>nat\<close>.
    Fractional, infinite and NaN arguments are outside the model, and so is the
    rounding of doubles beyond \<open>2 ^ 53\<close>: \<open>initialDelay * Math.pow(2, i)\<close> is the
    exact product.
  \<^item> A JavaScript object used as a string-keyed dictionary (\<open>options.headers\<close>,
    \<open>defaultHeaders\<close>) is a map; keys are compared as the exact strings they are,
    as object keys are.
  \<^item> The transport is an oracle: \<open>fetch env k req\<close> is how the \<open>k\<close>-th call of the
    invocation (counted from 0) settles when it is given the request \<open>req\<close>. Each
    pass through the loop body makes one call, so \<open>k\<close> is the loop index. A rejection
    covers network failure and the abort raised by the timeout signal; the request
    records the signal as the timeout that fires it, and \<open>None\<close> when the call
    passes no signal. A thrown value is an \<open>Error\<close> with a message.
  \<^item> \<open>AsyncStorage\<close> is a map from keys to strings in the world; \<open>getItem\<close> and
    \<open>setItem\<close> always succeed. \<open>response.text()\<close> always succeeds.
  \<^item> \<open>response.ok\<close> is what the Fetch standard defines: the status lies in 200..299.
  \<^item> \<open>JSON.parse\<close> is a parameter: \<open>JSON_parse env s\<close> is \<open>Some e\<close> when parsing
    \<open>s\<close> throws \<open>e\<close> and \<open>None\<close> when it returns a value (the value is only printed).
  \<^item> \<open>__DEV__\<close> is the flag \<open>dev env\<close>.
  \<^item> Every effect is appended to a trace in the world: storage reads and writes,
    transport calls (with the loop index and the request), waits (with the delay
    handed to \<open>setTimeout\<close>) and console lines (the message text; the object printed
    after it is dropped, its evaluation is not).
\<close>

subsection \<open>Rendering numbers in template strings\<close>

fun show_nat :: "nat \<Rightarrow> string" where
  "show_nat n =
     (if n < 10 then [''0123456789'' ! n]
      else show_nat (n div 10) @ [''0123456789'' ! (n mod 10)])"

declare show_nat.simps [simp del]

definition show_int :: "int \<Rightarrow> string" where
  "show_int k = (if k < 0 then CHR ''-'' # show_nat (nat (- k)) else show_nat (nat k))"

subsection \<open>Data\<close>

type_synonym headers = "string \<rightharpoonup> string"

record options =
  opt_method :: "string option"
  opt_headers :: headers
  opt_body :: "string option"

record request =
  req_url :: string
  req_method :: "string option"
  req_body :: "string option"
  req_headers :: headers
  req_credentials :: string
  req_signal :: "int option"

record response =
  status :: int
  body_text :: string
  resp_headers :: headers

definition ok :: "response \<Rightarrow> bool" where
  "ok r = (200 \<le> status r \<and> status r \<le> 299)"

datatype js_error = Error (message: string)

datatype fetch_result = Resolves response | Rejects js_error

datatype event =
    GetItem string
  | SetItem string string
  | Fetch nat request
  | Wait int
  | Log string

record world =
  storage :: "string \<rightharpoonup> string"
  trace :: "event list"

record env =
  fetch :: "nat \<Rightarrow> request \<Rightarrow> fetch_result"
  dev :: bool
  JSON_parse :: "string \<Rightarrow> js_error option"

text \<open>What one pass through the loop body does to the control flow.\<close>

datatype outcome = Return response | Continue | Throw js_error

subsection \<open>Effects\<close>

definition emit :: "event \<Rightarrow> world \<Rightarrow> world" where
  "emit e w = w\<lparr>trace := trace w @ [e]\<rparr>"

definition getItem :: "string \<Rightarrow> world \<Rightarrow> string option \<times> world" where
  "getItem k w = (storage w k, emit (GetItem k) w)"

definition setItem :: "string \<Rightarrow> string \<Rightarrow> world \<Rightarrow> world" where
  "setItem k v w = emit (SetItem k v) (w\<lparr>storage := (storage w)(k \<mapsto> v)\<rparr>)"

definition console :: "env \<Rightarrow> string \<Rightarrow> world \<Rightarrow> world" where
  "console en msg w = (if dev en then emit (Log msg) w else w)"

text \<open>A string or null used as a condition: null and the empty string are falsy.\<close>

definition truthy :: "string option \<Rightarrow> bool" where
  "truthy v = (case v of None \<Rightarrow> False | Some s \<Rightarrow> s \<noteq> [])"

subsection \<open>Headers of one attempt (lines 10--30)\<close>

definition userAgents :: "string list" where
  "userAgents =
     [''Mozilla/5.0 (Windows NT 10.0; Win64; x64) AppleWebKit/537.36 (KHTML, like Gecko) Chrome/117.0.0.0 Safari/537.36'',
      ''Mozilla/5.0 (Macintosh; Intel Mac OS X 10_15_7) AppleWebKit/605.1.15 (KHTML, like Gecko) Version/16.0 Safari/605.1.15'',
      ''Mozilla/5.0 (iPhone; CPU iPhone OS 16_0 like Mac OS X) AppleWebKit/605.1.15 (KHTML, like Gecko) Version/16.0 Mobile/15E148 Safari/604.1'']"

definition currentUserAgent :: "nat \<Rightarrow> string" where
  "currentUserAgent i = userAgents ! (i mod length userAgents)"

text \<open>The object literal of lines 18--25: five entries, then the spread of
  \<open>options.headers\<close>, whose entries replace earlier ones with the same key.\<close>

definition defaultHeaders :: "nat \<Rightarrow> options \<Rightarrow> headers" where
  "defaultHeaders i opts =
     [''Accept'' \<mapsto> ''application/json'',
      ''Content-Type'' \<mapsto> ''application/json'',
      ''User-Agent'' \<mapsto> currentUserAgent i,
      ''Accept-Encoding'' \<mapsto> ''gzip, deflate, br'',
      ''Connection'' \<mapsto> ''keep-alive''] ++ opt_headers opts"

text \<open>Lines 27--30: the assignment to the key \<open>Cookie\<close> comes after the spread.\<close>

definition attemptHeaders :: "nat \<Rightarrow> options \<Rightarrow> string option \<Rightarrow> headers" where
  "attemptHeaders i opts sessionCookie =
     (if truthy sessionCookie \<and> 2 \<le> i
      then (defaultHeaders i opts)(''Cookie'' \<mapsto> the sessionCookie)
      else defaultHeaders i opts)"

subsection \<open>The try block (lines 32--72)\<close>

definition mk_request :: "string \<Rightarrow> options \<Rightarrow> headers \<Rightarrow> int \<Rightarrow> request" where
  "mk_request url opts hdrs timeout =
     \<lparr>req_url = url, req_method = opt_method opts, req_body = opt_body opts,
      req_headers = hdrs, req_credentials = ''include'', req_signal = Some timeout\<rparr>"

text \<open>The second argument of the \<open>console.error\<close> of lines 50--56 holds
  \<open>options.body ? JSON.parse(options.body) : null\<close>; it is evaluated only under
  \<open>__DEV__\<close>, and before anything is printed.\<close>

definition log_payload :: "env \<Rightarrow> options \<Rightarrow> js_error option" where
  "log_payload en opts =
     (if dev en \<and> truthy (opt_body opts) then JSON_parse en (the (opt_body opts)) else None)"

definition try_block ::
  "env \<Rightarrow> string \<Rightarrow> options \<Rightarrow> int \<Rightarrow> int \<Rightarrow> int \<Rightarrow> nat \<Rightarrow> headers \<Rightarrow> world \<Rightarrow> outcome \<times> world" where
  "try_block en url opts retries initialDelay timeout i hdrs w =
     (let req = mk_request url opts hdrs timeout;
          w1 = emit (Fetch i req) w
      in case fetch en i req of
           Rejects e \<Rightarrow> (Throw e, w1)
         | Resolves resp \<Rightarrow>
             if \<not> ok resp then
               (let errorText = body_text resp in
                case log_payload en opts of
                  Some e \<Rightarrow> (Throw e, w1)
                | None \<Rightarrow>
                    (let w2 = console en
                           (''Fetch attempt '' @ show_nat (i + 1) @ '' of '' @ show_int retries
                            @ '' failed for '' @ url @ '': [Error: HTTP '' @ show_int (status resp)
                            @ ''] - '' @ errorText) w1
                     in if status resp = 403 \<and> int i < retries - 1 then
                          (let delay = initialDelay * 2 ^ i;
                               w3 = console en
                                 (''Waiting '' @ show_int delay
                                  @ ''ms before retrying with User-Agent: ''
                                  @ currentUserAgent i @ ''...'') w2
                           in (Continue, emit (Wait delay) w3))
                        else
                          (Throw (Error (''HTTP '' @ show_int (status resp) @ '' - '' @ errorText)),
                           w2)))
             else
               (let w2 = console en
                      (''Fetch succeeded for '' @ url @ '' on attempt '' @ show_nat (i + 1)) w1;
                    setCookie = resp_headers resp ''set-cookie''
                in if truthy setCookie
                   then (Return resp, setItem ''sessionCookie'' (the setCookie) w2)
                   else (Return resp, w2)))"

subsection \<open>The catch block (lines 73--82)\<close>

definition catch_block ::
  "env \<Rightarrow> string \<Rightarrow> int \<Rightarrow> int \<Rightarrow> nat \<Rightarrow> js_error \<Rightarrow> world \<Rightarrow> outcome \<times> world" where
  "catch_block en url retries initialDelay i error w =
     (let w1 = console en
            (''Fetch attempt '' @ show_nat (i + 1) @ '' of '' @ show_int retries
             @ '' failed for '' @ url @ '':'') w
      in if int i < retries - 1 then
           (let delay = initialDelay * 2 ^ i;
                w2 = console en (''Waiting '' @ show_int delay @ ''ms before retrying...'') w1
            in (Continue, emit (Wait delay) w2))
         else
           (Throw (Error (''Fetch failed after '' @ show_int retries @ '' attempts: ''
                          @ message error)), w1))"

subsection \<open>The loop body and the loop (lines 16--84)\<close>

definition iteration ::
  "env \<Rightarrow> string \<Rightarrow> options \<Rightarrow> int \<Rightarrow> int \<Rightarrow> int \<Rightarrow> nat \<Rightarrow> world \<Rightarrow> outcome \<times> world" where
  "iteration en url opts retries initialDelay timeout i w =
     (let (sessionCookie, w1) = getItem ''sessionCookie'' w;
          hdrs = attemptHeaders i opts sessionCookie
      in case try_block en url opts retries initialDelay timeout i hdrs w1 of
           (Throw error, w2) \<Rightarrow> catch_block en url retries initialDelay i error w2
         | (Return resp, w2) \<Rightarrow> (Return resp, w2)
         | (Continue, w2) \<Rightarrow> (Continue, w2))"

function loop ::
  "env \<Rightarrow> string \<Rightarrow> options \<Rightarrow> int \<Rightarrow> int \<Rightarrow> int \<Rightarrow> nat \<Rightarrow> world \<Rightarrow> (js_error + response) \<times> world" where
  "loop en url opts retries initialDelay timeout i w =
     (if int i < retries then
        (case iteration en url opts retries initialDelay timeout i w of
           (Return resp, w') \<Rightarrow> (Inr resp, w')
         | (Throw e, w') \<Rightarrow> (Inl e, w')
         | (Continue, w') \<Rightarrow> loop en url opts retries initialDelay timeout (Suc i) w')
      else (Inl (Error (''Fetch failed after '' @ show_int retries @ '' attempts'')), w))"
  by pat_completeness auto
termination
  by (relation "measure (\<lambda>(en, url, opts, retries, initialDelay, timeout, i, w). nat (retries - int i))")
     auto

declare loop.simps [simp del]

definition fetchWithRetry ::
  "env \<Rightarrow> string \<Rightarrow> options \<Rightarrow> int \<Rightarrow> int \<Rightarrow> int \<Rightarrow> world \<Rightarrow> (js_error + response) \<times> world" where
  "fetchWithRetry en url opts retries initialDelay timeout w =
     loop en url opts retries initialDelay timeout 0 w"

section \<open>The copy of the helper in \<open>src/app/recipe-details.tsx\<close> (lines 26--96)\<close>

text \<open>
  The copy takes no \<open>timeout\<close> and passes no signal to \<open>fetch\<close>, prints its console
  lines whatever \<open>__DEV__\<close> is, and its catch block ends in \<open>throw error\<close>. Its lines
  32--52 (the list of User-Agent strings, the object literal and the \<open>Cookie\<close>
  assignment) are those of lines 10--30 of the exported helper, character for
  character, so \<open>userAgents\<close>, \<open>currentUserAgent\<close>, \<open>defaultHeaders\<close> and
  \<open>attemptHeaders\<close> stand for them as well.
\<close>

subsection \<open>The try block (lines 54--83)\<close>

definition mk_request_inline :: "string \<Rightarrow> options \<Rightarrow> headers \<Rightarrow> request" where
  "mk_request_inline url opts hdrs =
     \<lparr>req_url = url, req_method = opt_method opts, req_body = opt_body opts,
      req_headers = hdrs, req_credentials = ''include'', req_signal = None\<rparr>"

text \<open>The payload of the \<open>console.error\<close> of lines 63--69, evaluated on every response
  that is not \<open>ok\<close>.\<close>

definition log_payload_inline :: "env \<Rightarrow> options \<Rightarrow> js_error option" where
  "log_payload_inline en opts =
     (if truthy (opt_body opts) then JSON_parse en (the (opt_body opts)) else None)"

definition try_block_inline ::
  "env \<Rightarrow> string \<Rightarrow> options \<Rightarrow> int \<Rightarrow> int \<Rightarrow> nat \<Rightarrow> headers \<Rightarrow> world \<Rightarrow> outcome \<times> world" where
  "try_block_inline en url opts retries initialDelay i hdrs w =
     (let req = mk_request_inline url opts hdrs;
          w1 = emit (Fetch i req) w
      in case fetch en i req of
           Rejects e \<Rightarrow> (Throw e, w1)
         | Resolves resp \<Rightarrow>
             if \<not> ok resp then
               (let errorText = body_text resp in
                case log_payload_inline en opts of
                  Some e \<Rightarrow> (Throw e, w1)
                | None \<Rightarrow>
                    (let w2 = emit (Log
                           (''Fetch attempt '' @ show_nat (i + 1) @ '' of '' @ show_int retries
                            @ '' failed for '' @ url @ '': [Error: HTTP '' @ show_int (status resp)
                            @ ''] - '' @ errorText)) w1
                     in if status resp = 403 \<and> int i < retries - 1 then
                          (let delay = initialDelay * 2 ^ i;
                               w3 = emit (Log
                                 (''Waiting '' @ show_int delay
                                  @ ''ms before retrying with User-Agent: ''
                                  @ currentUserAgent i @ ''...'')) w2
                           in (Continue, emit (Wait delay) w3))
                        else
                          (Throw (Error (''HTTP '' @ show_int (status resp) @ '' - '' @ errorText)),
                           w2)))
             else
               (let w2 = emit (Log
                      (''Fetch succeeded for '' @ url @ '' on attempt '' @ show_nat (i + 1))) w1;
                    setCookie = resp_headers resp ''set-cookie''
                in if truthy setCookie
                   then (Return resp, setItem ''sessionCookie'' (the setCookie) w2)
                   else (Return resp, w2)))"

subsection \<open>The catch block (lines 84--93)\<close>

text \<open>On the last attempt line 91 rethrows the error it caught.\<close>

definition catch_block_inline ::
  "string \<Rightarrow> int \<Rightarrow> int \<Rightarrow> nat \<Rightarrow> js_error \<Rightarrow> world \<Rightarrow> outcome \<times> world" where
  "catch_block_inline url retries initialDelay i error w =
     (let w1 = emit (Log
            (''Fetch attempt '' @ show_nat (i + 1) @ '' of '' @ show_int retries
             @ '' failed for '' @ url @ '':'')) w
      in if int i < retries - 1 then
           (let delay = initialDelay * 2 ^ i;
                w2 = emit (Log (''Waiting '' @ show_int delay @ ''ms before retrying...'')) w1
            in (Continue, emit (Wait delay) w2))
         else (Throw error, w1))"

subsection \<open>The loop body and the loop (lines 39--95)\<close>

definition iteration_inline ::
  "env \<Rightarrow> string \<Rightarrow> options \<Rightarrow> int \<Rightarrow> int \<Rightarrow> nat \<Rightarrow> world \<Rightarrow> outcome \<times> world" where
  "iteration_inline en url opts retries initialDelay i w =
     (let (sessionCookie, w1) = getItem ''sessionCookie'' w;
          hdrs = attemptHeaders i opts sessionCookie
      in case try_block_inline en url opts retries initialDelay i hdrs w1 of
           (Throw error, w2) \<Rightarrow> catch_block_inline url retries initialDelay i error w2
         | (Return resp, w2) \<Rightarrow> (Return resp, w2)
         | (Continue, w2) \<Rightarrow> (Continue, w2))"

function loop_inline ::
  "env \<Rightarrow> string \<Rightarrow> options \<Rightarrow> int \<Rightarrow> int \<Rightarrow> nat \<Rightarrow> world \<Rightarrow> (js_error + response) \<times> world" where
  "loop_inline en url opts retries initialDelay i w =
     (if int i < retries then
        (case iteration_inline en url opts retries initialDelay i w of
           (Return resp, w') \<Rightarrow> (Inr resp, w')
         | (Throw e, w') \<Rightarrow> (Inl e, w')
         | (Continue, w') \<Rightarrow> loop_inline en url opts retries initialDelay (Suc i) w')
      else (Inl (Error (''Fetch failed after '' @ show_int retries @ '' attempts'')), w))"
  by pat_completeness auto
termination
  by (relation "measure (\<lambda>(en, url, opts, retries, initialDelay, i, w). nat (retries - int i))")
     auto

declare loop_inline.simps [simp del]

definition fetchWithRetry_inline ::
  "env \<Rightarrow> string \<Rightarrow> options \<Rightarrow> int \<Rightarrow> int \<Rightarrow> world \<Rightarrow> (js_error + response) \<times> world" where
  "fetchWithRetry_inline en url opts retries initialDelay w =
     loop_inline en url opts retries initialDelay 0 w"

section \<open>Observing an invocation\<close>

text \<open>The transport calls recorded in a trace, each with the loop index it was made at.\<close>

fun calls :: "event list \<Rightarrow> (nat \<times> request) list" where
  "calls [] = []"
| "calls (Fetch i r # es) = (i, r) # calls es"
| "calls (e # es) = calls es"

text \<open>The value of one header in every transport call of a trace, in order.\<close>

definition sent :: "string \<Rightarrow> event list \<Rightarrow> string option list" where
  "sent k evs = map (\<lambda>(j, req). req_headers req k) (calls evs)"

text \<open>Transport calls and waits only, in the order they happened.\<close>

datatype tick = Call nat | Delay int

fun timeline :: "event list \<Rightarrow> tick list" where
  "timeline [] = []"
| "timeline (Fetch i r # es) = Call i # timeline es"
| "timeline (Wait d # es) = Delay d # timeline es"
| "timeline (e # es) = timeline es"

text \<open>What an invocation appended to the trace it started with.\<close>

definition new_events :: "world \<Rightarrow> world \<Rightarrow> event list" where
  "new_events w w' = drop (length (trace w)) (trace w')"

text \<open>\<open>m\<close> transport calls from index \<open>i\<close> on, with the wait between two of them.\<close>

fun backoff_timeline :: "int \<Rightarrow> nat \<Rightarrow> nat \<Rightarrow> tick list" where
  "backoff_timeline d i 0 = []"
| "backoff_timeline d i (Suc 0) = [Call i]"
| "backoff_timeline d i (Suc (Suc m)) =
     Call i # Delay (d * 2 ^ i) # backoff_timeline d (Suc i) (Suc m)"

text \<open>The request of attempt \<open>i\<close> when \<open>getItem\<close> returned \<open>cookie\<close>.\<close>

definition request_of :: "string \<Rightarrow> options \<Rightarrow> int \<Rightarrow> string option \<Rightarrow> nat \<Rightarrow> request" where
  "request_of url opts timeout cookie i =
     mk_request url opts (attemptHeaders i opts cookie) timeout"

text \<open>The error that reaches the catch block, or would reach it without the 403
  branch's \<open>continue\<close>, for a given way the transport call settled: the rejection, the
  error thrown while the log entry is built, or the \<open>HTTP status - text\<close> error of
  line 64. \<open>None\<close> for a response that is \<open>ok\<close>.\<close>

definition failure_of :: "env \<Rightarrow> options \<Rightarrow> fetch_result \<Rightarrow> js_error option" where
  "failure_of en opts fr =
     (case fr of
        Rejects e \<Rightarrow> Some e
      | Resolves resp \<Rightarrow>
          if ok resp then None
          else (case log_payload en opts of
                  Some e \<Rightarrow> Some e
                | None \<Rightarrow>
                    Some (Error (''HTTP '' @ show_int (status resp) @ '' - '' @ body_text resp))))"

definition attempt_failure ::
  "env \<Rightarrow> string \<Rightarrow> options \<Rightarrow> int \<Rightarrow> string option \<Rightarrow> nat \<Rightarrow> js_error option" where
  "attempt_failure en url opts timeout cookie i =
     failure_of en opts (fetch en i (request_of url opts timeout cookie i))"

text \<open>Two results of the same kind: the same response returned, or an error thrown
  by both.\<close>

fun same_kind :: "js_error + response \<Rightarrow> js_error + response \<Rightarrow> bool" where
  "same_kind (Inr resp') (Inr resp) = (resp' = resp)"
| "same_kind (Inl e') (Inl e) = True"
| "same_kind r' r = False"

section \<open>Concrete inputs\<close>

definition api_url :: string where
  "api_url = ''https://cravii.ng/cravii/api/get_recipes.php''"

definition empty_world :: world where
  "empty_world = \<lparr>storage = Map.empty, trace = []\<rparr>"

definition logged_in_world :: world where
  "logged_in_world = \<lparr>storage = [''sessionCookie'' \<mapsto> ''sid=abc''], trace = []\<rparr>"

definition plain_get :: options where
  "plain_get = \<lparr>opt_method = Some ''GET'', opt_headers = Map.empty, opt_body = None\<rparr>"

definition get_with_headers :: options where
  "get_with_headers =
     \<lparr>opt_method = Some ''GET'',
      opt_headers = [''Accept'' \<mapsto> ''text/html'', ''Cookie'' \<mapsto> ''theme=dark''],
      opt_body = None\<rparr>"

definition get_as_app :: options where
  "get_as_app =
     \<lparr>opt_method = Some ''GET'', opt_headers = [''User-Agent'' \<mapsto> ''CraviiApp/1.0''],
      opt_body = None\<rparr>"

definition html_post :: options where
  "html_post = \<lparr>opt_method = Some ''POST'', opt_headers = Map.empty, opt_body = Some ''<html>''\<rparr>"

text \<open>Two instances of the \<open>JSON.parse\<close> parameter. The first is used where no body is
  parsed; the second says what parsing the text \<open><html>\<close> does.\<close>

definition parses_anything :: "string \<Rightarrow> js_error option" where
  "parses_anything s = None"

definition rejects_html :: "string \<Rightarrow> js_error option" where
  "rejects_html s =
     (if s = ''<html>'' then Some (Error ''Unexpected token < in JSON at position 0'') else None)"

definition network_down :: "nat \<Rightarrow> request \<Rightarrow> fetch_result" where
  "network_down k req = Rejects (Error ''Network request failed'')"

definition offline_env :: env where
  "offline_env = \<lparr>fetch = network_down, dev = True, JSON_parse = parses_anything\<rparr>"

definition forbidden_then_ok :: "nat \<Rightarrow> request \<Rightarrow> fetch_result" where
  "forbidden_then_ok k req =
     (if k = 0
      then Resolves \<lparr>status = 403, body_text = ''Forbidden'',
                     resp_headers = [''set-cookie'' \<mapsto> ''sid=xyz'']\<rparr>
      else Resolves \<lparr>status = 200, body_text = ''{}'', resp_headers = Map.empty\<rparr>)"

definition cookie_on_403_env :: env where
  "cookie_on_403_env = \<lparr>fetch = forbidden_then_ok, dev = False, JSON_parse = parses_anything\<rparr>"

definition blocked_twice :: "nat \<Rightarrow> request \<Rightarrow> fetch_result" where
  "blocked_twice k req =
     (if k < 2
      then Resolves \<lparr>status = 403, body_text = ''Forbidden'', resp_headers = Map.empty\<rparr>
      else Resolves \<lparr>status = 200, body_text = ''{}'',
                     resp_headers = [''set-cookie'' \<mapsto> ''sid=xyz'']\<rparr>)"

definition blocked_twice_env :: env where
  "blocked_twice_env = \<lparr>fetch = blocked_twice, dev = True, JSON_parse = parses_anything\<rparr>"

definition unavailable :: "nat \<Rightarrow> request \<Rightarrow> fetch_result" where
  "unavailable k req =
     Resolves \<lparr>status = 503, body_text = ''Service Unavailable'', resp_headers = Map.empty\<rparr>"

definition unavailable_dev_env :: env where
  "unavailable_dev_env = \<lparr>fetch = unavailable, dev = True, JSON_parse = rejects_html\<rparr>"

definition unavailable_prod_env :: env where
  "unavailable_prod_env = \<lparr>fetch = unavailable, dev = False, JSON_parse = rejects_html\<rparr>"

definition not_found :: "nat \<Rightarrow> request \<Rightarrow> fetch_result" where
  "not_found k req =
     Resolves \<lparr>status = 404, body_text = ''Not Found'', resp_headers = Map.empty\<rparr>"

definition not_found_dev_env :: env where
  "not_found_dev_env = \<lparr>fetch = not_found, dev = True, JSON_parse = rejects_html\<rparr>"

section \<open>One pass through the loop body\<close>

lemma calls_append [simp]: "calls (xs @ ys) = calls xs @ calls ys"
  by (induction xs rule: calls.induct) simp_all

lemma timeline_append [simp]: "timeline (xs @ ys) = timeline xs @ timeline ys"
  by (induction xs rule: timeline.induct) simp_all

lemma console_simps [simp]:
  "storage (console en msg w) = storage w"
  "calls (trace (console en msg w)) = calls (trace w)"
  "timeline (trace (console en msg w)) = timeline (trace w)"
  by (simp_all add: console_def emit_def)

lemma console_extends: "\<exists>evs. trace (console en msg w) = trace w @ evs"
  by (simp add: console_def emit_def)

lemma iteration_extends:
  "\<exists>evs. trace (snd (iteration en url opts retries initialDelay timeout i w)) = trace w @ evs"
  by (auto simp: iteration_def try_block_def catch_block_def getItem_def setItem_def emit_def
      console_def Let_def split: fetch_result.splits option.splits)

lemma iteration_retry:
  assumes "attempt_failure en url opts timeout (storage w ''sessionCookie'') i = Some e"
    and "int i < retries - 1"
  shows "fst (iteration en url opts retries initialDelay timeout i w) = Continue"
    and "storage (snd (iteration en url opts retries initialDelay timeout i w)) = storage w"
    and "calls (trace (snd (iteration en url opts retries initialDelay timeout i w)))
         = calls (trace w) @ [(i, request_of url opts timeout (storage w ''sessionCookie'') i)]"
    and "timeline (trace (snd (iteration en url opts retries initialDelay timeout i w)))
         = timeline (trace w) @ [Call i, Delay (initialDelay * 2 ^ i)]"
  using assms
  by (auto simp: iteration_def try_block_def catch_block_def failure_of_def attempt_failure_def
      request_of_def getItem_def emit_def Let_def
      split: fetch_result.splits option.splits if_splits)

lemma iteration_exhausted:
  assumes "attempt_failure en url opts timeout (storage w ''sessionCookie'') i = Some e"
    and "\<not> int i < retries - 1"
  shows "fst (iteration en url opts retries initialDelay timeout i w)
         = Throw (Error (''Fetch failed after '' @ show_int retries @ '' attempts: '' @ message e))"
    and "storage (snd (iteration en url opts retries initialDelay timeout i w)) = storage w"
    and "calls (trace (snd (iteration en url opts retries initialDelay timeout i w)))
         = calls (trace w) @ [(i, request_of url opts timeout (storage w ''sessionCookie'') i)]"
    and "timeline (trace (snd (iteration en url opts retries initialDelay timeout i w)))
         = timeline (trace w) @ [Call i]"
  using assms
  by (auto simp: iteration_def try_block_def catch_block_def failure_of_def attempt_failure_def
      request_of_def getItem_def emit_def Let_def
      split: fetch_result.splits option.splits if_splits)

lemma iteration_success:
  assumes "attempt_failure en url opts timeout (storage w ''sessionCookie'') i = None"
  shows "\<exists>resp. fetch en i (request_of url opts timeout (storage w ''sessionCookie'') i) = Resolves resp
           \<and> ok resp
           \<and> fst (iteration en url opts retries initialDelay timeout i w) = Return resp
           \<and> storage (snd (iteration en url opts retries initialDelay timeout i w))
             = (if truthy (resp_headers resp ''set-cookie'')
                then (storage w)(''sessionCookie'' \<mapsto> the (resp_headers resp ''set-cookie''))
                else storage w)"
    and "calls (trace (snd (iteration en url opts retries initialDelay timeout i w)))
         = calls (trace w) @ [(i, request_of url opts timeout (storage w ''sessionCookie'') i)]"
    and "timeline (trace (snd (iteration en url opts retries initialDelay timeout i w)))
         = timeline (trace w) @ [Call i]"
  using assms
  by (auto simp: iteration_def try_block_def catch_block_def failure_of_def attempt_failure_def
      request_of_def getItem_def setItem_def emit_def Let_def
      split: fetch_result.splits option.splits if_splits)


lemma loop_stop:
  "\<not> int i < retries \<Longrightarrow>
   loop en url opts retries initialDelay timeout i w
   = (Inl (Error (''Fetch failed after '' @ show_int retries @ '' attempts'')), w)"
  by (simp add: loop.simps)

lemma loop_step:
  "int i < retries \<Longrightarrow>
   loop en url opts retries initialDelay timeout i w
   = (case iteration en url opts retries initialDelay timeout i w of
        (Return resp, w') \<Rightarrow> (Inr resp, w')
      | (Throw e, w') \<Rightarrow> (Inl e, w')
      | (Continue, w') \<Rightarrow> loop en url opts retries initialDelay timeout (Suc i) w')"
  by (subst loop.simps) simp

lemma loop_retry:
  assumes "int i < retries"
    and "fst (iteration en url opts retries initialDelay timeout i w) = Continue"
  shows "loop en url opts retries initialDelay timeout i w
         = loop en url opts retries initialDelay timeout (Suc i)
             (snd (iteration en url opts retries initialDelay timeout i w))"
  using assms
  by (cases "iteration en url opts retries initialDelay timeout i w") (simp add: loop_step)

lemma loop_return:
  assumes "int i < retries"
    and "fst (iteration en url opts retries initialDelay timeout i w) = Return resp"
  shows "loop en url opts retries initialDelay timeout i w
         = (Inr resp, snd (iteration en url opts retries initialDelay timeout i w))"
  using assms
  by (cases "iteration en url opts retries initialDelay timeout i w") (simp add: loop_step)

lemma loop_throw:
  assumes "int i < retries"
    and "fst (iteration en url opts retries initialDelay timeout i w) = Throw e"
  shows "loop en url opts retries initialDelay timeout i w
         = (Inl e, snd (iteration en url opts retries initialDelay timeout i w))"
  using assms
  by (cases "iteration en url opts retries initialDelay timeout i w") (simp add: loop_step)

text \<open>The three ways an iteration inside the bound can go.\<close>

lemma loop_cases:
  assumes "int i < retries"
  obtains
    (success) resp where
      "attempt_failure en url opts timeout (storage w ''sessionCookie'') i = None"
      "fetch en i (request_of url opts timeout (storage w ''sessionCookie'') i) = Resolves resp"
      "ok resp"
      "loop en url opts retries initialDelay timeout i w
       = (Inr resp, snd (iteration en url opts retries initialDelay timeout i w))"
      "storage (snd (iteration en url opts retries initialDelay timeout i w))
       = (if truthy (resp_headers resp ''set-cookie'')
          then (storage w)(''sessionCookie'' \<mapsto> the (resp_headers resp ''set-cookie''))
          else storage w)"
      "timeline (trace (snd (iteration en url opts retries initialDelay timeout i w)))
       = timeline (trace w) @ [Call i]"
  | (exhausted) e where
      "attempt_failure en url opts timeout (storage w ''sessionCookie'') i = Some e"
      "\<not> int i < retries - 1"
      "loop en url opts retries initialDelay timeout i w
       = (Inl (Error (''Fetch failed after '' @ show_int retries @ '' attempts: '' @ message e)),
          snd (iteration en url opts retries initialDelay timeout i w))"
      "storage (snd (iteration en url opts retries initialDelay timeout i w)) = storage w"
      "timeline (trace (snd (iteration en url opts retries initialDelay timeout i w)))
       = timeline (trace w) @ [Call i]"
  | (retry) e where
      "attempt_failure en url opts timeout (storage w ''sessionCookie'') i = Some e"
      "int i < retries - 1"
      "loop en url opts retries initialDelay timeout i w
       = loop en url opts retries initialDelay timeout (Suc i)
           (snd (iteration en url opts retries initialDelay timeout i w))"
      "storage (snd (iteration en url opts retries initialDelay timeout i w)) = storage w"
      "timeline (trace (snd (iteration en url opts retries initialDelay timeout i w)))
       = timeline (trace w) @ [Call i, Delay (initialDelay * 2 ^ i)]"
proof (cases "attempt_failure en url opts timeout (storage w ''sessionCookie'') i")
  case None
  from iteration_success(1) [OF None, of retries initialDelay]
  obtain resp where r:
    "fetch en i (request_of url opts timeout (storage w ''sessionCookie'') i) = Resolves resp"
    "ok resp"
    "fst (iteration en url opts retries initialDelay timeout i w) = Return resp"
    "storage (snd (iteration en url opts retries initialDelay timeout i w))
       = (if truthy (resp_headers resp ''set-cookie'')
          then (storage w)(''sessionCookie'' \<mapsto> the (resp_headers resp ''set-cookie''))
          else storage w)"
    by blast
  show ?thesis
    using success [OF None r(1) r(2) loop_return [OF assms r(3)] r(4) iteration_success(3) [OF None]] .
next
  case (Some e)
  show ?thesis
  proof (cases "int i < retries - 1")
    case True
    show ?thesis
      using retry [OF Some True
          loop_retry [OF assms iteration_retry(1) [OF Some True]]
          iteration_retry(2) [OF Some True] iteration_retry(4) [OF Some True]] .
  next
    case False
    show ?thesis
      using exhausted [OF Some False
          loop_throw [OF assms iteration_exhausted(1) [OF Some False]]
          iteration_exhausted(2) [OF Some False] iteration_exhausted(4) [OF Some False]] .
  qed
qed


lemma iteration_calls:
  "calls (trace (snd (iteration en url opts retries initialDelay timeout i w)))
   = calls (trace w) @ [(i, request_of url opts timeout (storage w ''sessionCookie'') i)]"
  by (cases "attempt_failure en url opts timeout (storage w ''sessionCookie'') i";
      cases "int i < retries - 1")
     (simp_all add: iteration_retry(3) iteration_exhausted(3) iteration_success(2))

lemma backoff_timeline_Suc:
  "0 < m \<Longrightarrow> backoff_timeline d i (Suc m) = Call i # Delay (d * 2 ^ i) # backoff_timeline d (Suc i) m"
  by (cases m) simp_all

lemma loop_extends:
  "\<exists>evs. trace (snd (loop en url opts retries initialDelay timeout i w)) = trace w @ evs"
proof (induction "nat (retries - int i)" arbitrary: i w)
  case 0
  then have "\<not> int i < retries" by simp
  then show ?case by (simp add: loop_stop)
next
  case (Suc n)
  then have inside: "int i < retries" by linarith
  let ?w1 = "snd (iteration en url opts retries initialDelay timeout i w)"
  obtain evs where evs: "trace ?w1 = trace w @ evs"
    using iteration_extends by blast
  from inside show ?case
  proof (cases rule: loop_cases [where en = en and url = url and opts = opts
        and initialDelay = initialDelay and timeout = timeout and w = w])
    case (success resp)
    then show ?thesis using evs by simp
  next
    case (exhausted e)
    then show ?thesis using evs by simp
  next
    case (retry e)
    from Suc.hyps(2) have "n = nat (retries - int (Suc i))" by simp
    from Suc.hyps(1) [OF this, of ?w1] obtain evs' where
      "trace (snd (loop en url opts retries initialDelay timeout (Suc i) ?w1)) = trace ?w1 @ evs'"
      by blast
    then show ?thesis using evs retry(3) by simp
  qed
qed

lemma loop_run:
  "\<exists>m. calls (trace (snd (loop en url opts retries initialDelay timeout i w)))
        = calls (trace w)
          @ map (\<lambda>j. (j, request_of url opts timeout (storage w ''sessionCookie'') j)) [i..<i + m]
      \<and> timeline (trace (snd (loop en url opts retries initialDelay timeout i w)))
        = timeline (trace w) @ backoff_timeline initialDelay i m
      \<and> (if int i < retries then 0 < m \<and> int (i + m) \<le> retries else m = 0)"
proof (induction "nat (retries - int i)" arbitrary: i w)
  case 0
  then have "\<not> int i < retries" by simp
  then show ?case by (simp add: loop_stop)
next
  case (Suc n)
  then have inside: "int i < retries" by linarith
  let ?c = "storage w ''sessionCookie''"
  let ?w1 = "snd (iteration en url opts retries initialDelay timeout i w)"
  have c1: "calls (trace ?w1) = calls (trace w) @ [(i, request_of url opts timeout ?c i)]"
    by (rule iteration_calls)
  from inside show ?case
  proof (cases rule: loop_cases [where en = en and url = url and opts = opts
        and initialDelay = initialDelay and timeout = timeout and w = w])
    case (success resp)
    with c1 inside show ?thesis
      by (intro exI [of _ 1]) simp
  next
    case (exhausted e)
    with c1 inside show ?thesis
      by (intro exI [of _ 1]) simp
  next
    case (retry e)
    from Suc.hyps(2) have "n = nat (retries - int (Suc i))" by simp
    from Suc.hyps(1) [OF this, of ?w1] retry(2,4) obtain m where m:
      "calls (trace (snd (loop en url opts retries initialDelay timeout (Suc i) ?w1)))
        = calls (trace ?w1)
          @ map (\<lambda>j. (j, request_of url opts timeout ?c j)) [Suc i..<Suc i + m]"
      "timeline (trace (snd (loop en url opts retries initialDelay timeout (Suc i) ?w1)))
        = timeline (trace ?w1) @ backoff_timeline initialDelay (Suc i) m"
      "0 < m" "int (Suc i + m) \<le> retries"
      by auto
    have "[i..<i + Suc m] = i # [Suc i..<Suc i + m]"
      by (simp add: upt_conv_Cons)
    with m retry c1 inside show ?thesis
      by (intro exI [of _ "Suc m"]) (simp add: backoff_timeline_Suc)
  qed
qed

lemma loop_storage:
  "storage (snd (loop en url opts retries initialDelay timeout i w))
   = (case fst (loop en url opts retries initialDelay timeout i w) of
        Inr resp \<Rightarrow>
          if truthy (resp_headers resp ''set-cookie'')
          then (storage w)(''sessionCookie'' \<mapsto> the (resp_headers resp ''set-cookie''))
          else storage w
      | Inl e \<Rightarrow> storage w)"
proof (induction "nat (retries - int i)" arbitrary: i w)
  case 0
  then have "\<not> int i < retries" by simp
  then show ?case by (simp add: loop_stop)
next
  case (Suc n)
  then have inside: "int i < retries" by linarith
  let ?w1 = "snd (iteration en url opts retries initialDelay timeout i w)"
  from inside show ?case
  proof (cases rule: loop_cases [where en = en and url = url and opts = opts
        and initialDelay = initialDelay and timeout = timeout and w = w])
    case (success resp)
    then show ?thesis by simp
  next
    case (exhausted e)
    then show ?thesis by simp
  next
    case (retry e)
    from Suc.hyps(2) have "n = nat (retries - int (Suc i))" by simp
    from Suc.hyps(1) [OF this, of ?w1] retry(3,4) show ?thesis
      by (simp split: sum.splits)
  qed
qed


lemma loop_all_fail:
  assumes "int i < retries"
    and "\<forall>k. i \<le> k \<and> int k < retries \<longrightarrow>
           attempt_failure en url opts timeout (storage w ''sessionCookie'') k \<noteq> None"
  shows "\<exists>e. attempt_failure en url opts timeout (storage w ''sessionCookie'') (nat retries - 1) = Some e
      \<and> fst (loop en url opts retries initialDelay timeout i w)
        = Inl (Error (''Fetch failed after '' @ show_int retries @ '' attempts: '' @ message e))
      \<and> calls (trace (snd (loop en url opts retries initialDelay timeout i w)))
        = calls (trace w)
          @ map (\<lambda>j. (j, request_of url opts timeout (storage w ''sessionCookie'') j)) [i..<nat retries]"
  using assms
proof (induction "nat (retries - int i)" arbitrary: i w)
  case 0
  then show ?case by simp
next
  case (Suc n)
  let ?c = "storage w ''sessionCookie''"
  let ?w1 = "snd (iteration en url opts retries initialDelay timeout i w)"
  have c1: "calls (trace ?w1) = calls (trace w) @ [(i, request_of url opts timeout ?c i)]"
    by (rule iteration_calls)
  from Suc.prems(1) show ?case
  proof (cases rule: loop_cases [where en = en and url = url and opts = opts
        and initialDelay = initialDelay and timeout = timeout and w = w])
    case (success resp)
    with Suc.prems show ?thesis by auto
  next
    case (exhausted e)
    with Suc.prems(1) have last: "nat retries - 1 = i" "[i..<nat retries] = [i]"
      by (simp_all add: upt_conv_Cons)
    with exhausted c1 show ?thesis by simp
  next
    case (retry e)
    from Suc.hyps(2) have n: "n = nat (retries - int (Suc i))" by simp
    from retry(2) have inside: "int (Suc i) < retries" by simp
    have "\<forall>k. Suc i \<le> k \<and> int k < retries \<longrightarrow>
            attempt_failure en url opts timeout (storage ?w1 ''sessionCookie'') k \<noteq> None"
      using Suc.prems(2) retry(4) by simp
    from Suc.hyps(1) [OF n inside this] retry(4) obtain e' where e':
      "attempt_failure en url opts timeout ?c (nat retries - 1) = Some e'"
      "fst (loop en url opts retries initialDelay timeout (Suc i) ?w1)
        = Inl (Error (''Fetch failed after '' @ show_int retries @ '' attempts: '' @ message e'))"
      "calls (trace (snd (loop en url opts retries initialDelay timeout (Suc i) ?w1)))
        = calls (trace ?w1) @ map (\<lambda>j. (j, request_of url opts timeout ?c j)) [Suc i..<nat retries]"
      by auto
    have "[i..<nat retries] = i # [Suc i..<nat retries]"
      using Suc.prems(1) by (simp add: upt_conv_Cons)
    with e' retry(3) c1 show ?thesis by simp
  qed
qed

lemma loop_first_success:
  assumes "i \<le> s" and "int s < retries"
    and "\<forall>k. i \<le> k \<and> k < s \<longrightarrow>
           attempt_failure en url opts timeout (storage w ''sessionCookie'') k \<noteq> None"
    and "attempt_failure en url opts timeout (storage w ''sessionCookie'') s = None"
  shows "\<exists>resp. fetch en s (request_of url opts timeout (storage w ''sessionCookie'') s) = Resolves resp
      \<and> ok resp
      \<and> fst (loop en url opts retries initialDelay timeout i w) = Inr resp
      \<and> calls (trace (snd (loop en url opts retries initialDelay timeout i w)))
        = calls (trace w)
          @ map (\<lambda>j. (j, request_of url opts timeout (storage w ''sessionCookie'') j)) [i..<Suc s]"
  using assms
proof (induction "s - i" arbitrary: i w)
  case 0
  then have at_s: "i = s" by simp
  let ?w1 = "snd (iteration en url opts retries initialDelay timeout i w)"
  have c1: "calls (trace ?w1)
            = calls (trace w) @ [(i, request_of url opts timeout (storage w ''sessionCookie'') i)]"
    by (rule iteration_calls)
  from 0(3) at_s have "int i < retries" by simp
  then show ?case
  proof (cases rule: loop_cases [where en = en and url = url and opts = opts
        and initialDelay = initialDelay and timeout = timeout and w = w])
    case (success resp)
    with c1 at_s show ?thesis by simp
  next
    case (exhausted e)
    with 0(5) at_s show ?thesis by simp
  next
    case (retry e)
    with 0(5) at_s show ?thesis by simp
  qed
next
  case (Suc n)
  then have lt: "i < s" by simp
  let ?c = "storage w ''sessionCookie''"
  let ?w1 = "snd (iteration en url opts retries initialDelay timeout i w)"
  have c1: "calls (trace ?w1) = calls (trace w) @ [(i, request_of url opts timeout ?c i)]"
    by (rule iteration_calls)
  from lt Suc.prems(2) have "int i < retries" by simp
  then show ?case
  proof (cases rule: loop_cases [where en = en and url = url and opts = opts
        and initialDelay = initialDelay and timeout = timeout and w = w])
    case (success resp)
    with Suc.prems(3) lt show ?thesis by auto
  next
    case (exhausted e)
    with lt Suc.prems(2) show ?thesis by simp
  next
    case (retry e)
    from Suc.hyps(2) have n: "n = s - Suc i" by simp
    from lt have le: "Suc i \<le> s" by simp
    have fails: "\<forall>k. Suc i \<le> k \<and> k < s \<longrightarrow>
            attempt_failure en url opts timeout (storage ?w1 ''sessionCookie'') k \<noteq> None"
      using Suc.prems(3) retry(4) by simp
    have succ: "attempt_failure en url opts timeout (storage ?w1 ''sessionCookie'') s = None"
      using Suc.prems(4) retry(4) by simp
    from Suc.hyps(1) [OF n le Suc.prems(2) fails succ] retry(4) obtain resp where r:
      "fetch en s (request_of url opts timeout ?c s) = Resolves resp" "ok resp"
      "fst (loop en url opts retries initialDelay timeout (Suc i) ?w1) = Inr resp"
      "calls (trace (snd (loop en url opts retries initialDelay timeout (Suc i) ?w1)))
        = calls (trace ?w1) @ map (\<lambda>j. (j, request_of url opts timeout ?c j)) [Suc i..<Suc s]"
      by auto
    have "[i..<Suc s] = i # [Suc i..<Suc s]"
      using lt by (simp add: upt_conv_Cons)
    with r retry(3) c1 show ?thesis by simp
  qed
qed

lemma new_events_loop:
  "trace (snd (loop en url opts retries initialDelay timeout i w))
   = trace w @ new_events w (snd (loop en url opts retries initialDelay timeout i w))"
  using loop_extends [of en url opts retries initialDelay timeout i w]
  by (auto simp: new_events_def)

lemma calls_new_events:
  assumes "calls (trace (snd (loop en url opts retries initialDelay timeout i w))) = calls (trace w) @ cs"
  shows "calls (new_events w (snd (loop en url opts retries initialDelay timeout i w))) = cs"
proof -
  have "calls (trace (snd (loop en url opts retries initialDelay timeout i w)))
        = calls (trace w) @ calls (new_events w (snd (loop en url opts retries initialDelay timeout i w)))"
    by (subst new_events_loop) simp
  with assms show ?thesis by simp
qed

lemma timeline_new_events:
  assumes "timeline (trace (snd (loop en url opts retries initialDelay timeout i w))) = timeline (trace w) @ ts"
  shows "timeline (new_events w (snd (loop en url opts retries initialDelay timeout i w))) = ts"
proof -
  have "timeline (trace (snd (loop en url opts retries initialDelay timeout i w)))
        = timeline (trace w) @ timeline (new_events w (snd (loop en url opts retries initialDelay timeout i w)))"
    by (subst new_events_loop) simp
  with assms show ?thesis by simp
qed

lemma run_shape:
  "\<exists>m. calls (new_events w (snd (fetchWithRetry en url opts retries initialDelay timeout w)))
        = map (\<lambda>j. (j, request_of url opts timeout (storage w ''sessionCookie'') j)) [0..<m]
      \<and> timeline (new_events w (snd (fetchWithRetry en url opts retries initialDelay timeout w)))
        = backoff_timeline initialDelay 0 m
      \<and> (if 0 < retries then 0 < m \<and> int m \<le> retries else m = 0)"
proof -
  from loop_run [of en url opts retries initialDelay timeout 0 w] obtain m where m:
    "calls (trace (snd (loop en url opts retries initialDelay timeout 0 w)))
        = calls (trace w)
          @ map (\<lambda>j. (j, request_of url opts timeout (storage w ''sessionCookie'') j)) [0..<0 + m]"
    "timeline (trace (snd (loop en url opts retries initialDelay timeout 0 w)))
        = timeline (trace w) @ backoff_timeline initialDelay 0 m"
    "if int 0 < retries then 0 < m \<and> int (0 + m) \<le> retries else m = 0"
    by blast
  from calls_new_events [OF m(1)] timeline_new_events [OF m(2)] m(3)
  show ?thesis
    unfolding fetchWithRetry_def by (intro exI [of _ m]) (simp split: if_splits)
qed

lemma backoff_timeline_length: "length (backoff_timeline d i m) = 2 * m - 1"
  by (induction d i m rule: backoff_timeline.induct) simp_all

lemma backoff_timeline_call:
  "j < m \<Longrightarrow> backoff_timeline d i m ! (2 * j) = Call (i + j)"
proof (induction d i m arbitrary: j rule: backoff_timeline.induct)
  case (1 d i)
  then show ?case by simp
next
  case (2 d i)
  then show ?case by simp
next
  case (3 d i m)
  then show ?case by (cases j) simp_all
qed

lemma backoff_timeline_delay:
  "1 \<le> j \<Longrightarrow> j < m \<Longrightarrow> backoff_timeline d i m ! (2 * j - 1) = Delay (d * 2 ^ (i + j - 1))"
proof (induction d i m arbitrary: j rule: backoff_timeline.induct)
  case (1 d i)
  then show ?case by simp
next
  case (2 d i)
  then show ?case by simp
next
  case (3 d i m)
  show ?case
  proof (cases j)
    case 0
    with 3 show ?thesis by simp
  next
    case (Suc j')
    show ?thesis
    proof (cases j')
      case 0
      with Suc show ?thesis by simp
    next
      case (Suc j'')
      with \<open>j = Suc j'\<close> 3(1) [of j'] 3(3) show ?thesis by simp
    qed
  qed
qed

lemma defaultHeaders_Cookie: "defaultHeaders i opts ''Cookie'' = opt_headers opts ''Cookie''"
  by (simp add: defaultHeaders_def map_add_def split: option.splits)

lemma attemptHeaders_early: "i < 2 \<Longrightarrow> attemptHeaders i opts cookie = defaultHeaders i opts"
  by (simp add: attemptHeaders_def)

lemma attemptHeaders_Cookie:
  "2 \<le> i \<Longrightarrow> truthy cookie \<Longrightarrow> attemptHeaders i opts cookie ''Cookie'' = cookie"
  by (auto simp: attemptHeaders_def truthy_def split: option.splits)

lemma req_headers_request_of [simp]:
  "req_headers (request_of url opts timeout cookie i) = attemptHeaders i opts cookie"
  by (simp add: request_of_def mk_request_def)

section \<open>Whole invocations\<close>

lemma run_all_fail:
  assumes "1 \<le> retries"
    and "\<forall>k. int k < retries \<longrightarrow>
           attempt_failure en url opts timeout (storage w ''sessionCookie'') k \<noteq> None"
  shows "\<exists>e. attempt_failure en url opts timeout (storage w ''sessionCookie'') (nat retries - 1) = Some e
      \<and> fst (fetchWithRetry en url opts retries initialDelay timeout w)
        = Inl (Error (''Fetch failed after '' @ show_int retries @ '' attempts: '' @ message e))
      \<and> calls (new_events w (snd (fetchWithRetry en url opts retries initialDelay timeout w)))
        = map (\<lambda>j. (j, request_of url opts timeout (storage w ''sessionCookie'') j)) [0..<nat retries]"
proof -
  from assms(1) have inside: "int 0 < retries" by simp
  from assms(2) have fails: "\<forall>k. 0 \<le> k \<and> int k < retries \<longrightarrow>
      attempt_failure en url opts timeout (storage w ''sessionCookie'') k \<noteq> None"
    by simp
  from loop_all_fail [OF inside fails, of initialDelay] obtain e where e:
    "attempt_failure en url opts timeout (storage w ''sessionCookie'') (nat retries - 1) = Some e"
    "fst (loop en url opts retries initialDelay timeout 0 w)
        = Inl (Error (''Fetch failed after '' @ show_int retries @ '' attempts: '' @ message e))"
    "calls (trace (snd (loop en url opts retries initialDelay timeout 0 w)))
        = calls (trace w)
          @ map (\<lambda>j. (j, request_of url opts timeout (storage w ''sessionCookie'') j)) [0..<nat retries]"
    by blast
  from e(1) e(2) calls_new_events [OF e(3)] show ?thesis
    unfolding fetchWithRetry_def by blast
qed

lemma run_first_success:
  assumes "int s < retries"
    and "\<forall>k. k < s \<longrightarrow>
           attempt_failure en url opts timeout (storage w ''sessionCookie'') k \<noteq> None"
    and "attempt_failure en url opts timeout (storage w ''sessionCookie'') s = None"
  shows "\<exists>resp. fetch en s (request_of url opts timeout (storage w ''sessionCookie'') s) = Resolves resp
      \<and> ok resp
      \<and> fst (fetchWithRetry en url opts retries initialDelay timeout w) = Inr resp
      \<and> calls (new_events w (snd (fetchWithRetry en url opts retries initialDelay timeout w)))
        = map (\<lambda>j. (j, request_of url opts timeout (storage w ''sessionCookie'') j)) [0..<Suc s]"
proof -
  from assms(2) have fails: "\<forall>k. 0 \<le> k \<and> k < s \<longrightarrow>
      attempt_failure en url opts timeout (storage w ''sessionCookie'') k \<noteq> None"
    by simp
  from loop_first_success [OF _ assms(1) fails assms(3), of initialDelay] obtain resp where r:
    "fetch en s (request_of url opts timeout (storage w ''sessionCookie'') s) = Resolves resp"
    "ok resp"
    "fst (loop en url opts retries initialDelay timeout 0 w) = Inr resp"
    "calls (trace (snd (loop en url opts retries initialDelay timeout 0 w)))
        = calls (trace w)
          @ map (\<lambda>j. (j, request_of url opts timeout (storage w ''sessionCookie'') j)) [0..<Suc s]"
    by auto
  from r(1,2,3) calls_new_events [OF r(4)] show ?thesis
    unfolding fetchWithRetry_def by blast
qed

lemma failure_of_Rejects [simp]: "failure_of en opts (Rejects e) = Some e"
  by (simp add: failure_of_def)

lemma failure_of_not_ok: "\<not> ok resp \<Longrightarrow> failure_of en opts (Resolves resp) \<noteq> None"
  by (simp add: failure_of_def split: option.splits)

lemma failure_of_ok: "ok resp \<Longrightarrow> failure_of en opts (Resolves resp) = None"
  by (simp add: failure_of_def)

lemma run_storage:
  "storage (snd (fetchWithRetry en url opts retries initialDelay timeout w))
   = (case fst (fetchWithRetry en url opts retries initialDelay timeout w) of
        Inr resp \<Rightarrow>
          if truthy (resp_headers resp ''set-cookie'')
          then (storage w)(''sessionCookie'' \<mapsto> the (resp_headers resp ''set-cookie''))
          else storage w
      | Inl e \<Rightarrow> storage w)"
  unfolding fetchWithRetry_def by (rule loop_storage)

section \<open>Evaluating the concrete inputs\<close>

text \<open>The equations that run an invocation on a concrete input, and the inputs.\<close>

lemmas run_defs = fetchWithRetry_def loop.simps iteration_def try_block_def catch_block_def
  getItem_def setItem_def emit_def console_def log_payload_def truthy_def attemptHeaders_def
  mk_request_def ok_def show_int_def show_nat.simps new_events_def Let_def


lemmas input_defs = api_url_def empty_world_def logged_in_world_def plain_get_def
  get_with_headers_def get_as_app_def html_post_def parses_anything_def rejects_html_def
  network_down_def offline_env_def forbidden_then_ok_def cookie_on_403_env_def
  blocked_twice_def blocked_twice_env_def unavailable_def unavailable_dev_env_def
  unavailable_prod_env_def not_found_def not_found_dev_env_def

lemma offline_three_indices:
  "map fst (calls (new_events logged_in_world
      (snd (fetchWithRetry offline_env api_url plain_get 3 300 10000 logged_in_world))))
   = [0, 1, 2]"
  by (simp add: run_defs offline_env_def network_down_def logged_in_world_def)

lemma offline_four_calls:
  "length (calls (new_events empty_world
      (snd (fetchWithRetry offline_env api_url plain_get 4 300 10000 empty_world)))) = 4"
  by (simp add: run_defs offline_env_def network_down_def empty_world_def)

lemma cookie_run_indices:
  "map fst (calls (new_events logged_in_world
      (snd (fetchWithRetry offline_env api_url get_with_headers 3 300 10000 logged_in_world))))
   = [0, 1, 2]"
  by (simp add: run_defs input_defs)

lemma rotation_run_indices:
  "map fst (calls (new_events empty_world
      (snd (fetchWithRetry offline_env api_url plain_get 4 300 10000 empty_world))))
   = [0, 1, 2, 3]"
  by (simp add: run_defs input_defs)

section \<open>The claims\<close>

subsection \<open>Exhaustion\<close>

text \<open>
  The exported helper. With \<open>retries \<ge> 1\<close> and a transport that rejects every call,
  it makes exactly \<open>retries\<close> transport calls, at the loop indices
  \<open>0, ..., retries - 1\<close>, and its one result is the error
  \<open>Fetch failed after <retries> attempts: <message>\<close>, where the message is that of
  the rejection of the last call. The earlier rejections end in a wait and the next
  attempt, never in a result.
\<close>

theorem exhaustion_after_transport_failures:
  assumes "1 \<le> retries"
    and "\<forall>k req. \<exists>e. fetch en k req = Rejects e"
  shows "\<exists>e. fetch en (nat retries - 1)
               (request_of url opts timeout (storage w ''sessionCookie'') (nat retries - 1))
             = Rejects e
      \<and> fst (fetchWithRetry en url opts retries initialDelay timeout w)
        = Inl (Error (''Fetch failed after '' @ show_int retries @ '' attempts: '' @ message e))
      \<and> calls (new_events w (snd (fetchWithRetry en url opts retries initialDelay timeout w)))
        = map (\<lambda>j. (j, request_of url opts timeout (storage w ''sessionCookie'') j)) [0..<nat retries]
      \<and> length (calls (new_events w (snd (fetchWithRetry en url opts retries initialDelay timeout w))))
        = nat retries"
proof -
  let ?c = "storage w ''sessionCookie''"
  have fails: "\<forall>k. int k < retries \<longrightarrow> attempt_failure en url opts timeout ?c k \<noteq> None"
  proof (intro allI impI)
    fix k
    from assms(2) obtain e where "fetch en k (request_of url opts timeout ?c k) = Rejects e"
      by blast
    then show "attempt_failure en url opts timeout ?c k \<noteq> None"
      by (simp add: attempt_failure_def)
  qed
  from run_all_fail [OF assms(1) fails, of initialDelay] obtain e where e:
    "attempt_failure en url opts timeout ?c (nat retries - 1) = Some e"
    "fst (fetchWithRetry en url opts retries initialDelay timeout w)
        = Inl (Error (''Fetch failed after '' @ show_int retries @ '' attempts: '' @ message e))"
    "calls (new_events w (snd (fetchWithRetry en url opts retries initialDelay timeout w)))
        = map (\<lambda>j. (j, request_of url opts timeout ?c j)) [0..<nat retries]"
    by blast
  from assms(2) obtain e' where
    e': "fetch en (nat retries - 1) (request_of url opts timeout ?c (nat retries - 1)) = Rejects e'"
    by blast
  with e(1) have "e' = e" by (simp add: attempt_failure_def)
  with e e' show ?thesis by simp
qed

theorem exhaustion_after_transport_failures_witness:
  "fst (fetchWithRetry offline_env api_url plain_get 4 300 10000 empty_world)
   = Inl (Error ''Fetch failed after 4 attempts: Network request failed'')
   \<and> length (calls (new_events empty_world
        (snd (fetchWithRetry offline_env api_url plain_get 4 300 10000 empty_world)))) = 4"
  using exhaustion_after_transport_failures
    [of 4 offline_env api_url plain_get 10000 empty_world 300]
  by (auto simp: offline_env_def network_down_def show_int_def show_nat.simps)

text \<open>
  The copy in \<open>recipe-details.tsx\<close>, under the same hypotheses: it makes the same
  \<open>retries\<close> transport calls and its one result is the rejection of the last call
  as it was thrown, with no attempt count added.
\<close>

lemma iteration_inline_rejected:
  assumes "\<forall>req. \<exists>e. fetch en i req = Rejects e"
  shows "\<exists>e req. fetch en i req = Rejects e
      \<and> fst (iteration_inline en url opts retries initialDelay i w)
        = (if int i < retries - 1 then Continue else Throw e)
      \<and> storage (snd (iteration_inline en url opts retries initialDelay i w)) = storage w
      \<and> calls (trace (snd (iteration_inline en url opts retries initialDelay i w)))
        = calls (trace w) @ [(i, req)]"
proof -
  let ?req = "mk_request_inline url opts (attemptHeaders i opts (storage w ''sessionCookie''))"
  from assms obtain e where e: "fetch en i ?req = Rejects e" by blast
  then show ?thesis
    by (intro exI [of _ e] exI [of _ ?req])
       (simp add: iteration_inline_def try_block_inline_def catch_block_inline_def getItem_def
          emit_def Let_def)
qed

lemma loop_inline_all_rejected:
  assumes "\<forall>k req. \<exists>e. fetch en k req = Rejects e"
  shows "int i < retries \<Longrightarrow>
         \<exists>e req. fetch en (nat retries - 1) req = Rejects e
           \<and> fst (loop_inline en url opts retries initialDelay i w) = Inl e
           \<and> map fst (calls (trace (snd (loop_inline en url opts retries initialDelay i w))))
             = map fst (calls (trace w)) @ [i..<nat retries]"
proof (induction "nat (retries - int i)" arbitrary: i w)
  case 0
  then show ?case by simp
next
  case (Suc n)
  let ?it = "iteration_inline en url opts retries initialDelay i w"
  from assms have "\<forall>req. \<exists>e. fetch en i req = Rejects e" by blast
  from iteration_inline_rejected [OF this, of url opts retries initialDelay w]
  obtain e req where it:
    "fetch en i req = Rejects e"
    "fst ?it = (if int i < retries - 1 then Continue else Throw e)"
    "calls (trace (snd ?it)) = calls (trace w) @ [(i, req)]"
    by blast
  show ?case
  proof (cases "int i < retries - 1")
    case True
    with it(2) have step: "loop_inline en url opts retries initialDelay i w
        = loop_inline en url opts retries initialDelay (Suc i) (snd ?it)"
      using Suc.prems by (cases ?it) (simp add: loop_inline.simps [of en url opts retries initialDelay i])
    from Suc.hyps(2) have n: "n = nat (retries - int (Suc i))" by simp
    from True have inside: "int (Suc i) < retries" by simp
    from Suc.hyps(1) [OF n inside, of "snd ?it"] obtain e' req' where
      "fetch en (nat retries - 1) req' = Rejects e'"
      "fst (loop_inline en url opts retries initialDelay (Suc i) (snd ?it)) = Inl e'"
      "map fst (calls (trace (snd (loop_inline en url opts retries initialDelay (Suc i) (snd ?it)))))
        = map fst (calls (trace (snd ?it))) @ [Suc i..<nat retries]"
      by blast
    moreover have "[i..<nat retries] = i # [Suc i..<nat retries]"
      using Suc.prems by (simp add: upt_conv_Cons)
    ultimately show ?thesis using step it(3) by auto
  next
    case False
    with it(2) have stop: "loop_inline en url opts retries initialDelay i w = (Inl e, snd ?it)"
      using Suc.prems by (cases ?it) (simp add: loop_inline.simps [of en url opts retries initialDelay i])
    from False Suc.prems have last: "nat retries - 1 = i" "[i..<nat retries] = [i]"
      by (simp_all add: upt_conv_Cons)
    with stop it(1,3) show ?thesis by auto
  qed
qed

lemma raw_error_after_transport_failures_inline:
  assumes "1 \<le> retries"
    and "\<forall>k req. \<exists>e. fetch en k req = Rejects e"
  shows "\<exists>e req. fetch en (nat retries - 1) req = Rejects e
      \<and> fst (fetchWithRetry_inline en url opts retries initialDelay w) = Inl e
      \<and> map fst (calls (trace (snd (fetchWithRetry_inline en url opts retries initialDelay w))))
        = map fst (calls (trace w)) @ [0..<nat retries]"
proof -
  from assms(1) have "int 0 < retries" by simp
  from loop_inline_all_rejected [OF assms(2) this] show ?thesis
    by (simp add: fetchWithRetry_inline_def)
qed


text \<open>
  C10. Called with \<open>retries \<le> 0\<close>, the helper leaves the world as it found it (no
  transport call, no storage read or write, nothing logged) and throws the error of
  line 84, which states the given count.
\<close>

theorem no_attempt_without_retries:
  "retries \<le> 0 \<Longrightarrow>
   fetchWithRetry en url opts retries initialDelay timeout w
   = (Inl (Error (''Fetch failed after '' @ show_int retries @ '' attempts'')), w)"
  by (simp add: fetchWithRetry_def loop_stop)

theorem no_attempt_without_retries_witness:
  "fetchWithRetry offline_env api_url plain_get 0 300 10000 logged_in_world
   = (Inl (Error ''Fetch failed after 0 attempts''), logged_in_world)
   \<and> fetchWithRetry offline_env api_url plain_get (- 3) 300 10000 logged_in_world
   = (Inl (Error ''Fetch failed after -3 attempts''), logged_in_world)"
  using no_attempt_without_retries [of 0 offline_env api_url plain_get 300 10000 logged_in_world]
    no_attempt_without_retries [of "- 3" offline_env api_url plain_get 300 10000 logged_in_world]
  by (simp add: show_int_def show_nat.simps)

subsection \<open>Responses with a status outside 200..299\<close>

text \<open>
  Every such response is retried after the backoff wait while attempts remain,
  whatever its status: a 403 by the \<open>continue\<close> of line 62, any other status (and a
  403 whose log entry could not be built) by the catch block. On the last attempt
  the error of line 64 reaches the catch block and is wrapped, provided building
  the log entry of lines 50--56 did not throw first.
\<close>

lemma http_failure_retried:
  assumes "fetch en i (request_of url opts timeout (storage w ''sessionCookie'') i) = Resolves resp"
    and "\<not> ok resp"
    and "int i < retries - 1"
  shows "fst (iteration en url opts retries initialDelay timeout i w) = Continue
      \<and> storage (snd (iteration en url opts retries initialDelay timeout i w)) = storage w
      \<and> timeline (trace (snd (iteration en url opts retries initialDelay timeout i w)))
        = timeline (trace w) @ [Call i, Delay (initialDelay * 2 ^ i)]"
proof -
  from assms(1,2) obtain e where
    "attempt_failure en url opts timeout (storage w ''sessionCookie'') i = Some e"
    using failure_of_not_ok [of resp en opts] by (auto simp: attempt_failure_def)
  from iteration_retry(1,2,4) [OF this assms(3)] show ?thesis by simp
qed

lemma http_failure_on_final_attempt:
  assumes "fetch en i (request_of url opts timeout (storage w ''sessionCookie'') i) = Resolves resp"
    and "\<not> ok resp"
    and "\<not> int i < retries - 1"
    and "log_payload en opts = None"
  shows "fst (iteration en url opts retries initialDelay timeout i w)
         = Throw (Error (''Fetch failed after '' @ show_int retries @ '' attempts: HTTP ''
                         @ show_int (status resp) @ '' - '' @ body_text resp))"
proof -
  from assms(1,2,4) have
    "attempt_failure en url opts timeout (storage w ''sessionCookie'') i
     = Some (Error (''HTTP '' @ show_int (status resp) @ '' - '' @ body_text resp))"
    by (simp add: attempt_failure_def failure_of_def)
  from iteration_exhausted(1) [OF this assms(3)] show ?thesis by simp
qed

lemma exhaustion_after_http_failures:
  assumes "1 \<le> retries"
    and "\<forall>k req. \<exists>resp. fetch en k req = Resolves resp \<and> \<not> ok resp"
    and "log_payload en opts = None"
  shows "\<exists>resp. fetch en (nat retries - 1)
                  (request_of url opts timeout (storage w ''sessionCookie'') (nat retries - 1))
                = Resolves resp
      \<and> fst (fetchWithRetry en url opts retries initialDelay timeout w)
        = Inl (Error (''Fetch failed after '' @ show_int retries @ '' attempts: HTTP ''
                      @ show_int (status resp) @ '' - '' @ body_text resp))
      \<and> length (calls (new_events w (snd (fetchWithRetry en url opts retries initialDelay timeout w))))
        = nat retries"
proof -
  let ?c = "storage w ''sessionCookie''"
  have fails: "\<forall>k. int k < retries \<longrightarrow> attempt_failure en url opts timeout ?c k \<noteq> None"
  proof (intro allI impI)
    fix k
    from assms(2) obtain resp where
      "fetch en k (request_of url opts timeout ?c k) = Resolves resp" "\<not> ok resp"
      by blast
    then show "attempt_failure en url opts timeout ?c k \<noteq> None"
      by (simp add: attempt_failure_def failure_of_not_ok)
  qed
  from run_all_fail [OF assms(1) fails, of initialDelay] obtain e where e:
    "attempt_failure en url opts timeout ?c (nat retries - 1) = Some e"
    "fst (fetchWithRetry en url opts retries initialDelay timeout w)
        = Inl (Error (''Fetch failed after '' @ show_int retries @ '' attempts: '' @ message e))"
    "calls (new_events w (snd (fetchWithRetry en url opts retries initialDelay timeout w)))
        = map (\<lambda>j. (j, request_of url opts timeout ?c j)) [0..<nat retries]"
    by blast
  from assms(2) obtain resp where resp:
    "fetch en (nat retries - 1) (request_of url opts timeout ?c (nat retries - 1)) = Resolves resp"
    "\<not> ok resp"
    by blast
  with e(1) assms(3) have
    "e = Error (''HTTP '' @ show_int (status resp) @ '' - '' @ body_text resp)"
    by (simp add: attempt_failure_def failure_of_def)
  with e resp show ?thesis by auto
qed

text \<open>
  C2. The claim that the terminal error always carries the HTTP status and the
  response text fails in a development build when \<open>options.body\<close> is not JSON text:
  \<open>JSON.parse\<close> throws inside the \<open>try\<close> block while the log entry is built, and the
  catch block wraps that error instead. Two 404 responses, \<open>retries = 2\<close>: the first
  is retried after 300 ms as claimed, the terminal error names neither 404 nor the
  response text.
\<close>

theorem http_status_lost_when_log_payload_throws:
  "timeline (new_events empty_world
      (snd (fetchWithRetry not_found_dev_env api_url html_post 2 300 10000 empty_world)))
   = [Call 0, Delay 300, Call 1]
   \<and> fst (fetchWithRetry not_found_dev_env api_url html_post 2 300 10000 empty_world)
   = Inl (Error ''Fetch failed after 2 attempts: Unexpected token < in JSON at position 0'')"
  by (simp add: run_defs input_defs)

subsection \<open>Session cookie\<close>

text \<open>
  C3. In every invocation, a transport call made at loop index 0 or 1 carries the
  headers built from the defaults and the caller's headers alone, so its \<open>Cookie\<close>
  header is whatever the caller supplied and never the stored session cookie; a
  call made at an index from 2 on carries the stored session cookie as its \<open>Cookie\<close>
  header whenever storage holds a non-empty value. Storage is written only after the
  last transport call of an invocation (\<open>loop_cases\<close>), so the value in storage when
  an attempt builds its headers is the value the invocation started with.
\<close>

theorem cookie_only_from_third_attempt:
  "\<forall>(j, req) \<in> set (calls (new_events w (snd (fetchWithRetry en url opts retries initialDelay timeout w)))).
     (j < 2 \<longrightarrow> req_headers req = defaultHeaders j opts
                 \<and> req_headers req ''Cookie'' = opt_headers opts ''Cookie'')
     \<and> (2 \<le> j \<and> truthy (storage w ''sessionCookie'')
          \<longrightarrow> req_headers req ''Cookie'' = storage w ''sessionCookie'')"
proof -
  from run_shape [of w en url opts retries initialDelay timeout] obtain m where
    "calls (new_events w (snd (fetchWithRetry en url opts retries initialDelay timeout w)))
        = map (\<lambda>j. (j, request_of url opts timeout (storage w ''sessionCookie'') j)) [0..<m]"
    by blast
  then show ?thesis
    by (auto simp: attemptHeaders_early attemptHeaders_Cookie defaultHeaders_Cookie)
qed

theorem cookie_only_from_third_attempt_witness:
  "sent ''Cookie'' (new_events logged_in_world
      (snd (fetchWithRetry offline_env api_url plain_get 3 300 10000 logged_in_world)))
   = [None, None, Some ''sid=abc'']"
proof -
  let ?cs = "calls (new_events logged_in_world
      (snd (fetchWithRetry offline_env api_url plain_get 3 300 10000 logged_in_world)))"
  from offline_three_indices obtain r0 r1 r2 where cs: "?cs = [(0, r0), (1, r1), (2, r2)]"
    by (auto simp: map_eq_Cons_conv)
  from cookie_only_from_third_attempt
    [of logged_in_world offline_env api_url plain_get 3 300 10000]
  show ?thesis
    unfolding cs sent_def
    by (simp add: logged_in_world_def plain_get_def truthy_def defaultHeaders_Cookie)
qed

text \<open>
  C4, as amended. Storage is written by an invocation only when it returns a
  response: if the returned response carries a non-empty \<open>set-cookie\<close> header, the
  key \<open>sessionCookie\<close> holds that value afterwards, replacing any earlier one;
  otherwise, and whenever the invocation throws, storage is what it was. A response
  of a failed attempt never reaches storage.
\<close>

theorem session_cookie_written_on_success_only:
  "storage (snd (fetchWithRetry en url opts retries initialDelay timeout w))
   = (case fst (fetchWithRetry en url opts retries initialDelay timeout w) of
        Inr resp \<Rightarrow>
          if truthy (resp_headers resp ''set-cookie'')
          then (storage w)(''sessionCookie'' \<mapsto> the (resp_headers resp ''set-cookie''))
          else storage w
      | Inl e \<Rightarrow> storage w)"
  by (rule run_storage)

theorem session_cookie_written_on_success_only_witness:
  "storage (snd (fetchWithRetry blocked_twice_env api_url plain_get 3 300 10000 logged_in_world))
     ''sessionCookie'' = Some ''sid=xyz''"
proof -
  have "fst (fetchWithRetry blocked_twice_env api_url plain_get 3 300 10000 logged_in_world)
        = Inr \<lparr>status = 200, body_text = ''{}'', resp_headers = [''set-cookie'' \<mapsto> ''sid=xyz'']\<rparr>"
    by (simp add: run_defs input_defs)
  with session_cookie_written_on_success_only
    [of blocked_twice_env api_url plain_get 3 300 10000 logged_in_world]
  show ?thesis by (simp add: truthy_def)
qed

text \<open>The claim as stated fails: a 403 response with \<open>set-cookie: sid=xyz\<close> on attempt
  0 is retried, attempt 1 succeeds without the header, and storage holds no session
  cookie afterwards.\<close>

theorem set_cookie_of_failed_attempt_not_stored:
  "fetch cookie_on_403_env 0 (request_of api_url plain_get 10000 None 0)
     = Resolves \<lparr>status = 403, body_text = ''Forbidden'',
                 resp_headers = [''set-cookie'' \<mapsto> ''sid=xyz'']\<rparr>
   \<and> length (calls (new_events empty_world
        (snd (fetchWithRetry cookie_on_403_env api_url plain_get 2 300 10000 empty_world)))) = 2
   \<and> storage (snd (fetchWithRetry cookie_on_403_env api_url plain_get 2 300 10000 empty_world))
        ''sessionCookie'' = None"
  by (simp add: run_defs input_defs)

subsection \<open>Success after refusals\<close>

text \<open>
  C5. With \<open>retries \<ge> 2\<close>, a transport that answers 403 to every call before the
  last one and a status in 200..299 to the call at index \<open>retries - 1\<close>: the helper
  returns that last response, having made exactly \<open>retries\<close> transport calls, the
  successful one last.
\<close>

theorem success_after_forbidden_attempts:
  assumes "2 \<le> retries"
    and "\<forall>k req. int k < retries - 1 \<longrightarrow> (\<exists>resp. fetch en k req = Resolves resp \<and> status resp = 403)"
    and "\<forall>req. \<exists>resp. fetch en (nat retries - 1) req = Resolves resp \<and> ok resp"
  shows "\<exists>resp. fetch en (nat retries - 1)
                  (request_of url opts timeout (storage w ''sessionCookie'') (nat retries - 1))
                = Resolves resp
      \<and> fst (fetchWithRetry en url opts retries initialDelay timeout w) = Inr resp
      \<and> calls (new_events w (snd (fetchWithRetry en url opts retries initialDelay timeout w)))
        = map (\<lambda>j. (j, request_of url opts timeout (storage w ''sessionCookie'') j)) [0..<nat retries]
      \<and> length (calls (new_events w (snd (fetchWithRetry en url opts retries initialDelay timeout w))))
        = nat retries"
proof -
  let ?c = "storage w ''sessionCookie''"
  let ?s = "nat retries - 1"
  from assms(1) have s: "int ?s < retries" "Suc ?s = nat retries" by simp_all
  have fails: "\<forall>k. k < ?s \<longrightarrow> attempt_failure en url opts timeout ?c k \<noteq> None"
  proof (intro allI impI)
    fix k assume "k < ?s"
    then have "int k < retries - 1" by simp
    with assms(2) obtain resp where
      "fetch en k (request_of url opts timeout ?c k) = Resolves resp" "status resp = 403"
      by blast
    then show "attempt_failure en url opts timeout ?c k \<noteq> None"
      by (simp add: attempt_failure_def failure_of_not_ok ok_def)
  qed
  from assms(3) obtain resp where
    "fetch en ?s (request_of url opts timeout ?c ?s) = Resolves resp" "ok resp"
    by blast
  then have succ: "attempt_failure en url opts timeout ?c ?s = None"
    by (simp add: attempt_failure_def failure_of_ok)
  from run_first_success [OF s(1) fails succ, of initialDelay] s(2) show ?thesis
    by auto
qed

theorem success_after_forbidden_attempts_witness:
  "fst (fetchWithRetry blocked_twice_env api_url plain_get 3 300 10000 empty_world)
   = Inr \<lparr>status = 200, body_text = ''{}'', resp_headers = [''set-cookie'' \<mapsto> ''sid=xyz'']\<rparr>
   \<and> length (calls (new_events empty_world
        (snd (fetchWithRetry blocked_twice_env api_url plain_get 3 300 10000 empty_world)))) = 3"
  using success_after_forbidden_attempts
    [of 3 blocked_twice_env api_url plain_get 10000 empty_world 300]
  by (auto simp: blocked_twice_env_def blocked_twice_def ok_def)

subsection \<open>Backoff\<close>

text \<open>
  C6. In every invocation that makes \<open>m\<close> transport calls, calls and waits alternate:
  the timeline has \<open>2 * m - 1\<close> entries, entry \<open>2 * j\<close> is the call of attempt \<open>j\<close>, and
  for \<open>j \<ge> 1\<close> the entry just before it is a wait of \<open>initialDelay * 2 ^ (j - 1)\<close>.
  So nothing is waited before attempt 0 and nothing after the last attempt.
\<close>

theorem backoff_before_each_retry:
  "length (timeline (new_events w (snd (fetchWithRetry en url opts retries initialDelay timeout w))))
     = 2 * length (calls (new_events w (snd (fetchWithRetry en url opts retries initialDelay timeout w)))) - 1
   \<and> (\<forall>j < length (calls (new_events w (snd (fetchWithRetry en url opts retries initialDelay timeout w)))).
        timeline (new_events w (snd (fetchWithRetry en url opts retries initialDelay timeout w))) ! (2 * j)
          = Call j
        \<and> (1 \<le> j \<longrightarrow>
             timeline (new_events w (snd (fetchWithRetry en url opts retries initialDelay timeout w))) ! (2 * j - 1)
               = Delay (initialDelay * 2 ^ (j - 1))))"
proof -
  from run_shape [of w en url opts retries initialDelay timeout] obtain m where
    "calls (new_events w (snd (fetchWithRetry en url opts retries initialDelay timeout w)))
        = map (\<lambda>j. (j, request_of url opts timeout (storage w ''sessionCookie'') j)) [0..<m]"
    "timeline (new_events w (snd (fetchWithRetry en url opts retries initialDelay timeout w)))
        = backoff_timeline initialDelay 0 m"
    by blast
  then show ?thesis
    using backoff_timeline_call [of _ m initialDelay 0] backoff_timeline_delay [of _ m initialDelay 0]
    by (simp add: backoff_timeline_length)
qed

theorem backoff_before_each_retry_witness:
  "timeline (new_events empty_world
      (snd (fetchWithRetry offline_env api_url plain_get 4 300 10000 empty_world))) ! 1 = Delay 300
   \<and> timeline (new_events empty_world
      (snd (fetchWithRetry offline_env api_url plain_get 4 300 10000 empty_world))) ! 3 = Delay 600
   \<and> timeline (new_events empty_world
      (snd (fetchWithRetry offline_env api_url plain_get 4 300 10000 empty_world))) ! 5 = Delay 1200
   \<and> length (timeline (new_events empty_world
      (snd (fetchWithRetry offline_env api_url plain_get 4 300 10000 empty_world)))) = 7"
proof -
  let ?tl = "timeline (new_events empty_world
      (snd (fetchWithRetry offline_env api_url plain_get 4 300 10000 empty_world)))"
  from backoff_before_each_retry [of empty_world offline_env api_url plain_get 4 300 10000]
  have len: "length ?tl = 7"
    and each: "\<forall>j<4. ?tl ! (2 * j) = Call j \<and> (1 \<le> j \<longrightarrow> ?tl ! (2 * j - 1) = Delay (300 * 2 ^ (j - 1)))"
    by (simp_all add: offline_four_calls)
  have "?tl ! 1 = Delay 300" using each [THEN spec, of 1] by simp
  moreover have "?tl ! 3 = Delay 600" using each [THEN spec, of 2] by simp
  moreover have "?tl ! 5 = Delay 1200" using each [THEN spec, of 3] by simp
  ultimately show ?thesis using len by simp
qed

subsection \<open>Outgoing headers\<close>

text \<open>
  C7, as amended. In every transport call the value of a header key is the caller's
  value when the caller supplied that key and the default's otherwise (the five
  defaults, the User-Agent being that of the attempt), with one exception: at a loop
  index from 2 on, when storage holds a non-empty session cookie, the key \<open>Cookie\<close>
  carries the stored cookie, whether or not the caller supplied a \<open>Cookie\<close>.
\<close>

theorem outgoing_headers:
  "\<forall>(j, req) \<in> set (calls (new_events w (snd (fetchWithRetry en url opts retries initialDelay timeout w)))).
     \<forall>k. req_headers req k
          = (if k = ''Cookie'' \<and> 2 \<le> j \<and> truthy (storage w ''sessionCookie'')
             then storage w ''sessionCookie''
             else case opt_headers opts k of
                    Some v \<Rightarrow> Some v
                  | None \<Rightarrow>
                      [''Accept'' \<mapsto> ''application/json'',
                       ''Content-Type'' \<mapsto> ''application/json'',
                       ''User-Agent'' \<mapsto> userAgents ! (j mod length userAgents),
                       ''Accept-Encoding'' \<mapsto> ''gzip, deflate, br'',
                       ''Connection'' \<mapsto> ''keep-alive''] k)"
proof -
  from run_shape [of w en url opts retries initialDelay timeout] obtain m where
    "calls (new_events w (snd (fetchWithRetry en url opts retries initialDelay timeout w)))
        = map (\<lambda>j. (j, request_of url opts timeout (storage w ''sessionCookie'') j)) [0..<m]"
    by blast
  then show ?thesis
    by (auto simp: attemptHeaders_def defaultHeaders_def currentUserAgent_def truthy_def
        map_add_def split: option.splits)
qed

theorem outgoing_headers_witness:
  "sent ''Accept'' (new_events logged_in_world
      (snd (fetchWithRetry offline_env api_url get_with_headers 3 300 10000 logged_in_world)))
   = [Some ''text/html'', Some ''text/html'', Some ''text/html'']
   \<and> sent ''Content-Type'' (new_events logged_in_world
      (snd (fetchWithRetry offline_env api_url get_with_headers 3 300 10000 logged_in_world)))
   = [Some ''application/json'', Some ''application/json'', Some ''application/json'']
   \<and> sent ''Cookie'' (new_events logged_in_world
      (snd (fetchWithRetry offline_env api_url get_with_headers 3 300 10000 logged_in_world)))
   = [Some ''theme=dark'', Some ''theme=dark'', Some ''sid=abc'']"
proof -
  let ?cs = "calls (new_events logged_in_world
      (snd (fetchWithRetry offline_env api_url get_with_headers 3 300 10000 logged_in_world)))"
  from cookie_run_indices obtain r0 r1 r2 where cs: "?cs = [(0, r0), (1, r1), (2, r2)]"
    by (auto simp: map_eq_Cons_conv)
  from outgoing_headers
    [of logged_in_world offline_env api_url get_with_headers 3 300 10000]
  show ?thesis
    unfolding cs sent_def
    by (simp add: logged_in_world_def get_with_headers_def truthy_def)
qed

text \<open>The claim as stated fails on the key \<open>Cookie\<close>: the caller supplies
  \<open>Cookie: theme=dark\<close>, storage holds \<open>sid=abc\<close>, and the third transport call carries
  the stored cookie.\<close>

theorem caller_cookie_replaced_by_stored_cookie:
  "opt_headers get_with_headers ''Cookie'' = Some ''theme=dark''
   \<and> sent ''Cookie'' (new_events logged_in_world
        (snd (fetchWithRetry offline_env api_url get_with_headers 3 300 10000 logged_in_world)))
     = [Some ''theme=dark'', Some ''theme=dark'', Some ''sid=abc'']"
  by (simp add: run_defs input_defs sent_def defaultHeaders_def)

text \<open>
  C8, as amended. In every transport call the \<open>User-Agent\<close> header is the caller's
  when the caller supplied one, and otherwise the entry of \<open>userAgents\<close> at the loop
  index modulo the length of the list.
\<close>

theorem user_agent_rotation:
  "\<forall>(j, req) \<in> set (calls (new_events w (snd (fetchWithRetry en url opts retries initialDelay timeout w)))).
     req_headers req ''User-Agent''
     = (case opt_headers opts ''User-Agent'' of
          Some v \<Rightarrow> Some v
        | None \<Rightarrow> Some (userAgents ! (j mod length userAgents)))"
proof -
  from run_shape [of w en url opts retries initialDelay timeout] obtain m where
    "calls (new_events w (snd (fetchWithRetry en url opts retries initialDelay timeout w)))
        = map (\<lambda>j. (j, request_of url opts timeout (storage w ''sessionCookie'') j)) [0..<m]"
    by blast
  then show ?thesis
    by (auto simp: attemptHeaders_def defaultHeaders_def currentUserAgent_def
        map_add_def split: option.splits)
qed

theorem user_agent_rotation_witness:
  "sent ''User-Agent'' (new_events empty_world
      (snd (fetchWithRetry offline_env api_url plain_get 4 300 10000 empty_world)))
   = [Some (userAgents ! 0), Some (userAgents ! 1), Some (userAgents ! 2), Some (userAgents ! 0)]"
proof -
  let ?cs = "calls (new_events empty_world
      (snd (fetchWithRetry offline_env api_url plain_get 4 300 10000 empty_world)))"
  from rotation_run_indices obtain r0 r1 r2 r3 where
    cs: "?cs = [(0, r0), (1, r1), (2, r2), (3, r3)]"
    by (auto simp: map_eq_Cons_conv)
  have len: "length userAgents = 3" by (simp add: userAgents_def)
  from user_agent_rotation [of empty_world offline_env api_url plain_get 4 300 10000]
  show ?thesis
    unfolding cs sent_def by (simp add: plain_get_def len)
qed

text \<open>The claim as stated fails when the caller supplies a \<open>User-Agent\<close> header: both
  transport calls carry the caller's value, which is no entry of the list.\<close>

theorem caller_user_agent_replaces_rotation:
  "sent ''User-Agent'' (new_events empty_world
      (snd (fetchWithRetry offline_env api_url get_as_app 2 300 10000 empty_world)))
   = [Some ''CraviiApp/1.0'', Some ''CraviiApp/1.0'']
   \<and> ''CraviiApp/1.0'' \<noteq> userAgents ! (0 mod length userAgents)
   \<and> ''CraviiApp/1.0'' \<noteq> userAgents ! (1 mod length userAgents)"
  by (simp add: run_defs input_defs sent_def defaultHeaders_def userAgents_def)

subsection \<open>Diagnostic logging\<close>

text \<open>
  Two environments with the same transport, whatever their \<open>__DEV__\<close> flag and their
  \<open>JSON.parse\<close>: the invocations make the same transport calls with the same waits
  between them, leave the same storage, and either return the same response or both
  throw. What logging can change is the error that is thrown.
\<close>

lemma attempt_failure_None_iff:
  "attempt_failure en url opts timeout cookie i = None
   \<longleftrightarrow> (\<exists>resp. fetch en i (request_of url opts timeout cookie i) = Resolves resp \<and> ok resp)"
  by (auto simp: attempt_failure_def failure_of_def split: fetch_result.splits option.splits)

lemma loop_same_transport:
  assumes "fetch en' = fetch en"
  shows "storage w' = storage w \<Longrightarrow>
         (\<exists>ts. timeline (trace (snd (loop en' url opts retries initialDelay timeout i w')))
              = timeline (trace w') @ ts
            \<and> timeline (trace (snd (loop en url opts retries initialDelay timeout i w)))
              = timeline (trace w) @ ts)
       \<and> storage (snd (loop en' url opts retries initialDelay timeout i w'))
         = storage (snd (loop en url opts retries initialDelay timeout i w))
       \<and> same_kind (fst (loop en' url opts retries initialDelay timeout i w'))
                   (fst (loop en url opts retries initialDelay timeout i w))"
proof (induction "nat (retries - int i)" arbitrary: i w w')
  case 0
  then have "\<not> int i < retries" by simp
  with 0 show ?case by (simp add: loop_stop)
next
  case (Suc n)
  then have inside: "int i < retries" by linarith
  let ?c = "storage w ''sessionCookie''"
  let ?v = "snd (iteration en url opts retries initialDelay timeout i w)"
  let ?v' = "snd (iteration en' url opts retries initialDelay timeout i w')"
  from Suc.prems have c: "storage w' ''sessionCookie'' = ?c" by simp
  have same: "attempt_failure en' url opts timeout ?c i = None
              \<longleftrightarrow> attempt_failure en url opts timeout ?c i = None"
    by (simp add: attempt_failure_None_iff assms)
  from inside show ?case
  proof (cases rule: loop_cases [where en = en and url = url and opts = opts
        and initialDelay = initialDelay and timeout = timeout and w = w])
    case (success resp)
    note a = success
    from inside show ?thesis
    proof (cases rule: loop_cases [where en = en' and url = url and opts = opts
        and initialDelay = initialDelay and timeout = timeout and w = w'])
      case (success resp')
      with a c assms Suc.prems show ?thesis by simp
    next
      case (exhausted e')
      with a c same show ?thesis by simp
    next
      case (retry e')
      with a c same show ?thesis by simp
    qed
  next
    case (exhausted e)
    note a = exhausted
    from inside show ?thesis
    proof (cases rule: loop_cases [where en = en' and url = url and opts = opts
        and initialDelay = initialDelay and timeout = timeout and w = w'])
      case (success resp')
      with a c same show ?thesis by simp
    next
      case (exhausted e')
      with a Suc.prems show ?thesis by simp
    next
      case (retry e')
      with a show ?thesis by simp
    qed
  next
    case (retry e)
    note a = retry
    from inside show ?thesis
    proof (cases rule: loop_cases [where en = en' and url = url and opts = opts
        and initialDelay = initialDelay and timeout = timeout and w = w'])
      case (success resp')
      with a c same show ?thesis by simp
    next
      case (exhausted e')
      with a show ?thesis by simp
    next
      case (retry e')
      from Suc.hyps(2) have n: "n = nat (retries - int (Suc i))" by simp
      from a(4) retry(4) Suc.prems have "storage ?v' = storage ?v" by simp
      from Suc.hyps(1) [OF n this] a(3,5) retry(3,5) show ?thesis by auto
    qed
  qed
qed

lemma logging_changes_only_the_error:
  assumes "fetch en' = fetch en"
  shows "timeline (new_events w (snd (fetchWithRetry en' url opts retries initialDelay timeout w)))
         = timeline (new_events w (snd (fetchWithRetry en url opts retries initialDelay timeout w)))
       \<and> storage (snd (fetchWithRetry en' url opts retries initialDelay timeout w))
         = storage (snd (fetchWithRetry en url opts retries initialDelay timeout w))
       \<and> same_kind (fst (fetchWithRetry en' url opts retries initialDelay timeout w))
                   (fst (fetchWithRetry en url opts retries initialDelay timeout w))"
proof -
  have "storage w = storage w" by simp
  from loop_same_transport [OF assms this, where url = url and opts = opts
      and retries = retries and initialDelay = initialDelay and timeout = timeout and i = 0]
  obtain ts where ts:
    "timeline (trace (snd (loop en' url opts retries initialDelay timeout 0 w)))
       = timeline (trace w) @ ts"
    "timeline (trace (snd (loop en url opts retries initialDelay timeout 0 w)))
       = timeline (trace w) @ ts"
    and rest: "storage (snd (loop en' url opts retries initialDelay timeout 0 w))
         = storage (snd (loop en url opts retries initialDelay timeout 0 w))"
      "same_kind (fst (loop en' url opts retries initialDelay timeout 0 w))
                   (fst (loop en url opts retries initialDelay timeout 0 w))"
    by blast
  from timeline_new_events [OF ts(1)] timeline_new_events [OF ts(2)] rest
  show ?thesis by (simp add: fetchWithRetry_def)
qed

text \<open>
  C9. Building the log entry of lines 50--56 throws when \<open>options.body\<close> is not JSON
  text. With one attempt and a 503 response, the development build ends in the
  parser's error wrapped by the catch block, where the production build, which
  builds no log entry, ends in the HTTP error.
\<close>

theorem log_entry_throws_on_non_json_body:
  "log_payload unavailable_dev_env html_post
   = Some (Error ''Unexpected token < in JSON at position 0'')
   \<and> fst (fetchWithRetry unavailable_dev_env api_url html_post 1 300 10000 empty_world)
   = Inl (Error ''Fetch failed after 1 attempts: Unexpected token < in JSON at position 0'')
   \<and> fst (fetchWithRetry unavailable_prod_env api_url html_post 1 300 10000 empty_world)
   = Inl (Error ''Fetch failed after 1 attempts: HTTP 503 - Service Unavailable'')"
  by (simp add: run_defs input_defs)

end
